theory Spec2Isabelle
  imports Main "HOL-Library.Sublist" "HOL-Library.Char_ord" "HOL-Library.List_Lexorder"
begin

section \<open>The secret string type\<close>

text \<open>
  \<^verbatim>\<open>type SecretString string\<close>: a defined type over Go's byte strings, with the two
  methods of \<^verbatim>\<open>config.go\<close>.
\<close>

datatype SecretString = SecretString string

definition SecretString_String :: "SecretString \<Rightarrow> string" where
  "SecretString_String s = ''****************''"

fun SecretString_Secret :: "SecretString \<Rightarrow> string" where
  "SecretString_Secret (SecretString s) = s"

section \<open>Reflection: kinds, types and values\<close>

text \<open>The kinds of Go's \<^verbatim>\<open>reflect.Kind\<close>, in its order.\<close>

datatype Kind =
    KInvalid | KBool | KInt | KInt8 | KInt16 | KInt32 | KInt64
  | KUint | KUint8 | KUint16 | KUint32 | KUint64 | KUintptr
  | KFloat32 | KFloat64 | KComplex64 | KComplex128
  | KArray | KChan | KFunc | KInterface | KMap | KPtr | KSlice | KString | KStruct
  | KUnsafePointer

text \<open>\<^verbatim>\<open>Kind.String()\<close>, which \<^verbatim>\<open>%v\<close> prints.\<close>

fun Kind_String :: "Kind \<Rightarrow> string" where
  "Kind_String KInvalid = ''invalid''"
| "Kind_String KBool = ''bool''"
| "Kind_String KInt = ''int''"
| "Kind_String KInt8 = ''int8''"
| "Kind_String KInt16 = ''int16''"
| "Kind_String KInt32 = ''int32''"
| "Kind_String KInt64 = ''int64''"
| "Kind_String KUint = ''uint''"
| "Kind_String KUint8 = ''uint8''"
| "Kind_String KUint16 = ''uint16''"
| "Kind_String KUint32 = ''uint32''"
| "Kind_String KUint64 = ''uint64''"
| "Kind_String KUintptr = ''uintptr''"
| "Kind_String KFloat32 = ''float32''"
| "Kind_String KFloat64 = ''float64''"
| "Kind_String KComplex64 = ''complex64''"
| "Kind_String KComplex128 = ''complex128''"
| "Kind_String KArray = ''array''"
| "Kind_String KChan = ''chan''"
| "Kind_String KFunc = ''func''"
| "Kind_String KInterface = ''interface''"
| "Kind_String KMap = ''map''"
| "Kind_String KPtr = ''ptr''"
| "Kind_String KSlice = ''slice''"
| "Kind_String KString = ''string''"
| "Kind_String KStruct = ''struct''"
| "Kind_String KUnsafePointer = ''unsafe.Pointer''"

text \<open>
  A declared default of a field (the \<^verbatim>\<open>default\<close> struct tag), as the value the tag
  denotes for the field's type.
\<close>

datatype scalar = SBool bool | SInt int | SString string

text \<open>
  The types a destination structure is built from. A struct type lists its fields in
  declaration order: the key of the field (its \<^verbatim>\<open>mapstructure\<close> name, or the declared
  name when there is none), its declared default if any, and its type. \<open>TMap\<close> is
  \<^verbatim>\<open>map[string]interface{}\<close>, \<open>TInterface\<close> is \<^verbatim>\<open>interface{}\<close> and \<open>TNone\<close> is the nil
  \<^verbatim>\<open>reflect.Type\<close> that \<^verbatim>\<open>reflect.TypeOf(nil)\<close> returns.
\<close>

datatype rtype =
    TNone | TBool | TInt | TString | TSecretString | TDuration
  | TSlice rtype | TMap | TInterface | TPtr rtype
  | TStruct "(string \<times> scalar option \<times> rtype) list"

text \<open>
  The values. A struct value lists its fields in declaration order, each with its key
  and declared default (the field's tags) and its current value. \<open>VNil\<close> is the nil
  interface value, \<open>VNilPtr t\<close> the nil pointer of type \<^verbatim>\<open>*t\<close>.
\<close>

datatype val =
    VNil | VBool bool | VInt int | VString string | VSecret SecretString
  | VDuration int
  | VSlice rtype "val list"
  | VMap "(string \<times> val) list"
  | VPtr val | VNilPtr rtype
  | VStruct "(string \<times> scalar option \<times> val) list"

fun type_of :: "val \<Rightarrow> rtype" where
  "type_of VNil = TNone"
| "type_of (VBool b) = TBool"
| "type_of (VInt i) = TInt"
| "type_of (VString s) = TString"
| "type_of (VSecret s) = TSecretString"
| "type_of (VDuration d) = TDuration"
| "type_of (VSlice t vs) = TSlice t"
| "type_of (VMap m) = TMap"
| "type_of (VPtr v) = TPtr (type_of v)"
| "type_of (VNilPtr t) = TPtr t"
| "type_of (VStruct fs) = TStruct (map (\<lambda>e. (fst e, fst (snd e), type_of (snd (snd e)))) fs)"

fun Kind_of_type :: "rtype \<Rightarrow> Kind" where
  "Kind_of_type TNone = KInvalid"
| "Kind_of_type TBool = KBool"
| "Kind_of_type TInt = KInt"
| "Kind_of_type TString = KString"
| "Kind_of_type TSecretString = KString"
| "Kind_of_type TDuration = KInt64"
| "Kind_of_type (TSlice t) = KSlice"
| "Kind_of_type TMap = KMap"
| "Kind_of_type TInterface = KInterface"
| "Kind_of_type (TPtr t) = KPtr"
| "Kind_of_type (TStruct fs) = KStruct"

text \<open>\<^verbatim>\<open>reflect.ValueOf(x).Kind()\<close>.\<close>

definition Kind_of :: "val \<Rightarrow> Kind" where
  "Kind_of v = Kind_of_type (type_of v)"

section \<open>Errors\<close>

text \<open>
  The error values of the package, by the step of \<^verbatim>\<open>Load\<close> that returns them, each with
  its message; a Go panic is an outcome of its own.
\<close>

datatype error =
    InvalidArgument string
  | SourceReadError string
  | KeyDiscoveryError string
  | BindingError string
  | DecodeError string
  | Panic string

section \<open>The decode hooks\<close>

text \<open>
  \<^verbatim>\<open>SecretStringMaskHookFunc\<close>: the function it returns, on the source type, the target
  type and the data. The type assertion \<^verbatim>\<open>data.(SecretString)\<close> panics on data of another
  dynamic type.
\<close>

fun SecretStringMaskHookFunc :: "rtype \<Rightarrow> rtype \<Rightarrow> val \<Rightarrow> error + val" where
  "SecretStringMaskHookFunc f t data =
     (if f \<noteq> TSecretString then Inr data
      else if t \<noteq> TSecretString then Inr data
      else (case data of
              VSecret s \<Rightarrow> Inr (VString (SecretString_String s))
            | _ \<Rightarrow> Inl (Panic ''interface conversion: interface {} is not config.SecretString'')))"

text \<open>\<^verbatim>\<open>strings.Split(s, sep)\<close> for a separator of one byte.\<close>

fun Split_acc :: "char \<Rightarrow> string \<Rightarrow> string \<Rightarrow> string list" where
  "Split_acc c acc [] = [rev acc]"
| "Split_acc c acc (x # xs) =
     (if x = c then rev acc # Split_acc c [] xs else Split_acc c (x # acc) xs)"

definition Split :: "string \<Rightarrow> char \<Rightarrow> string list" where
  "Split s c = Split_acc c [] s"

text \<open>
  Modelled from the spec: the two hooks of the \<^verbatim>\<open>mapstructure\<close> library, which is not part
  of the repository. String-to-duration converts when the source is a string and the
  target is the duration type, with the parser \<open>pd\<close> of the duration syntax
  (\<^verbatim>\<open>time.ParseDuration\<close>) a parameter; string-to-list splits on the separator when the
  source is a string and the target is an ordered sequence. Both assert
  \<^verbatim>\<open>data.(string)\<close>.
\<close>

fun StringToTimeDurationHookFunc ::
  "(string \<Rightarrow> string + int) \<Rightarrow> rtype \<Rightarrow> rtype \<Rightarrow> val \<Rightarrow> error + val" where
  "StringToTimeDurationHookFunc pd f t data =
     (if Kind_of_type f \<noteq> KString then Inr data
      else if t \<noteq> TDuration then Inr data
      else (case data of
              VString s \<Rightarrow> (case pd s of Inl e \<Rightarrow> Inl (DecodeError e) | Inr d \<Rightarrow> Inr (VDuration d))
            | _ \<Rightarrow> Inl (Panic ''interface conversion: interface {} is not string'')))"

fun StringToSliceHookFunc :: "char \<Rightarrow> rtype \<Rightarrow> rtype \<Rightarrow> val \<Rightarrow> error + val" where
  "StringToSliceHookFunc sep f t data =
     (if Kind_of_type f \<noteq> KString \<or> Kind_of_type t \<noteq> KSlice then Inr data
      else (case data of
              VString raw \<Rightarrow>
                (if raw = [] then Inr (VSlice TString [])
                 else Inr (VSlice TString (map VString (Split raw sep))))
            | _ \<Rightarrow> Inl (Panic ''interface conversion: interface {} is not string'')))"

text \<open>The hooks that \<^verbatim>\<open>Decode\<close> hands to \<^verbatim>\<open>ComposeDecodeHookFunc\<close>, in its order.\<close>

datatype hook = StringToTimeDurationHook | StringToSliceHook char | SecretStringMaskHook

definition Decode_hooks :: "hook list" where
  "Decode_hooks = [StringToTimeDurationHook, StringToSliceHook CHR '','', SecretStringMaskHook]"

fun run_hook :: "(string \<Rightarrow> string + int) \<Rightarrow> hook \<Rightarrow> rtype \<Rightarrow> rtype \<Rightarrow> val \<Rightarrow> error + val" where
  "run_hook pd StringToTimeDurationHook = StringToTimeDurationHookFunc pd"
| "run_hook pd (StringToSliceHook c) = StringToSliceHookFunc c"
| "run_hook pd SecretStringMaskHook = SecretStringMaskHookFunc"

text \<open>
  Modelled from the spec: \<^verbatim>\<open>mapstructure.ComposeDecodeHookFunc\<close>. The hooks run in the
  order given; an error stops the chain, and each hook sees the data the one before it
  returned, with the source type that data has.
\<close>

fun ComposeDecodeHookFunc ::
  "(string \<Rightarrow> string + int) \<Rightarrow> hook list \<Rightarrow> rtype \<Rightarrow> rtype \<Rightarrow> val \<Rightarrow> error + val" where
  "ComposeDecodeHookFunc pd [] f t data = Inr data"
| "ComposeDecodeHookFunc pd (h # hs) f t data =
     (case run_hook pd h f t data of
        Inl e \<Rightarrow> Inl e
      | Inr data' \<Rightarrow> ComposeDecodeHookFunc pd hs (type_of data') t data')"

definition DecodeHook :: "(string \<Rightarrow> string + int) \<Rightarrow> rtype \<Rightarrow> rtype \<Rightarrow> val \<Rightarrow> error + val" where
  "DecodeHook pd = ComposeDecodeHookFunc pd Decode_hooks"

section \<open>The decoder\<close>

text \<open>
  Library functions the package calls and the repository does not hold, taken as
  parameters: the parser of Go's duration syntax (\<^verbatim>\<open>time.ParseDuration\<close>), the parser of
  integers (\<^verbatim>\<open>strconv.ParseInt\<close> with base 0) and the JSON text of a value that is
  neither a scalar nor a \<^verbatim>\<open>map[string]interface{}\<close>.
\<close>

record lib =
  ParseDuration :: "string \<Rightarrow> string + int"
  ParseInt :: "string \<Rightarrow> string + int"
  MarshalOther :: "val \<Rightarrow> string"
  DecodeOther :: "val \<Rightarrow> val \<Rightarrow> error + val"

text \<open>\<^verbatim>\<open>reflect.Indirect\<close>; the nil pointer gives the invalid value.\<close>

fun Indirect :: "val \<Rightarrow> val" where
  "Indirect (VPtr v) = v"
| "Indirect (VNilPtr t) = VNil"
| "Indirect v = v"

fun is_nil :: "val \<Rightarrow> bool" where
  "is_nil VNil = True"
| "is_nil (VNilPtr t) = True"
| "is_nil v = False"

text \<open>\<^verbatim>\<open>reflect.Zero\<close>; a nil slice is the empty slice, a nil map the empty map.\<close>

fun zero_of :: "rtype \<Rightarrow> val" where
  "zero_of TNone = VNil"
| "zero_of TBool = VBool False"
| "zero_of TInt = VInt 0"
| "zero_of TString = VString []"
| "zero_of TSecretString = VSecret (SecretString [])"
| "zero_of TDuration = VDuration 0"
| "zero_of (TSlice t) = VSlice t []"
| "zero_of TMap = VMap []"
| "zero_of TInterface = VNil"
| "zero_of (TPtr t) = VNilPtr t"
| "zero_of (TStruct fs) = VStruct (map (\<lambda>e. (fst e, fst (snd e), zero_of (snd (snd e)))) fs)"

text \<open>The type of the location a value sits in; the nil interface sits in an \<^verbatim>\<open>interface{}\<close>.\<close>

fun slot_type :: "val \<Rightarrow> rtype" where
  "slot_type VNil = TInterface"
| "slot_type v = type_of v"

text \<open>Decimal text of a number (\<^verbatim>\<open>strconv.Itoa\<close>, \<^verbatim>\<open>strconv.FormatInt\<close> with base 10).\<close>

fun digits :: "nat \<Rightarrow> string" where
  "digits n = (if n < 10 then [''0123456789'' ! n] else digits (n div 10) @ [''0123456789'' ! (n mod 10)])"

declare digits.simps [simp del]

definition FormatInt :: "int \<Rightarrow> string" where
  "FormatInt i = (if i < 0 then CHR ''-'' # digits (nat (- i)) else digits (nat i))"

text \<open>\<^verbatim>\<open>strconv.ParseBool\<close>.\<close>

definition ParseBool :: "string \<Rightarrow> bool option" where
  "ParseBool s =
     (if s \<in> set [''1'', ''t'', ''T'', ''TRUE'', ''true'', ''True''] then Some True
      else if s \<in> set [''0'', ''f'', ''F'', ''FALSE'', ''false'', ''False''] then Some False
      else None)"

text \<open>Letter case of ASCII, and \<^verbatim>\<open>strings.EqualFold\<close> on ASCII names.\<close>

definition to_lower :: "char \<Rightarrow> char" where
  "to_lower c =
     (case map_of (zip ''ABCDEFGHIJKLMNOPQRSTUVWXYZ'' ''abcdefghijklmnopqrstuvwxyz'') c of
        Some l \<Rightarrow> l
      | None \<Rightarrow> c)"

definition to_upper :: "char \<Rightarrow> char" where
  "to_upper c =
     (case map_of (zip ''abcdefghijklmnopqrstuvwxyz'' ''ABCDEFGHIJKLMNOPQRSTUVWXYZ'') c of
        Some u \<Rightarrow> u
      | None \<Rightarrow> c)"

definition ToLower :: "string \<Rightarrow> string" where
  "ToLower s = map to_lower s"

definition ToUpper :: "string \<Rightarrow> string" where
  "ToUpper s = map to_upper s"

definition EqualFold :: "string \<Rightarrow> string \<Rightarrow> bool" where
  "EqualFold a b = (ToLower a = ToLower b)"

text \<open>
  Modelled from the spec: the decoder of the \<^verbatim>\<open>mapstructure\<close> library, which is not part
  of the repository, for the values above. First the conversions into the scalar
  kinds; \<open>w\<close> is \<^verbatim>\<open>WeaklyTypedInput\<close>.
\<close>

definition unconvertible :: "string \<Rightarrow> val \<Rightarrow> error" where
  "unconvertible t d =
     DecodeError (''expected type '' @ t @ '', got unconvertible type of kind '' @ Kind_String (Kind_of d))"

fun decodeBool :: "bool \<Rightarrow> val \<Rightarrow> error + bool" where
  "decodeBool w d =
     (case Indirect d of
        VBool b \<Rightarrow> Inr b
      | VInt i \<Rightarrow> if w then Inr (i \<noteq> 0) else Inl (unconvertible ''bool'' d)
      | VDuration i \<Rightarrow> if w then Inr (i \<noteq> 0) else Inl (unconvertible ''bool'' d)
      | VString s \<Rightarrow>
          if w then (case ParseBool s of
                       Some b \<Rightarrow> Inr b
                     | None \<Rightarrow> if s = [] then Inr False else Inl (DecodeError ''cannot parse as bool''))
          else Inl (unconvertible ''bool'' d)
      | VSecret s \<Rightarrow>
          if w then (case ParseBool (SecretString_Secret s) of
                       Some b \<Rightarrow> Inr b
                     | None \<Rightarrow> if SecretString_Secret s = [] then Inr False
                               else Inl (DecodeError ''cannot parse as bool''))
          else Inl (unconvertible ''bool'' d)
      | _ \<Rightarrow> Inl (unconvertible ''bool'' d))"

fun decodeInt :: "lib \<Rightarrow> bool \<Rightarrow> val \<Rightarrow> error + int" where
  "decodeInt L w d =
     (case Indirect d of
        VInt i \<Rightarrow> Inr i
      | VDuration i \<Rightarrow> Inr i
      | VBool b \<Rightarrow> if w then Inr (if b then 1 else 0) else Inl (unconvertible ''int'' d)
      | VString s \<Rightarrow>
          if w then (case ParseInt L s of
                       Inl e \<Rightarrow> Inl (DecodeError (''cannot parse as int: '' @ e))
                     | Inr i \<Rightarrow> Inr i)
          else Inl (unconvertible ''int'' d)
      | VSecret s \<Rightarrow>
          if w then (case ParseInt L (SecretString_Secret s) of
                       Inl e \<Rightarrow> Inl (DecodeError (''cannot parse as int: '' @ e))
                     | Inr i \<Rightarrow> Inr i)
          else Inl (unconvertible ''int'' d)
      | _ \<Rightarrow> Inl (unconvertible ''int'' d))"

fun decodeString :: "bool \<Rightarrow> val \<Rightarrow> error + string" where
  "decodeString w d =
     (case Indirect d of
        VString s \<Rightarrow> Inr s
      | VSecret s \<Rightarrow> Inr (SecretString_Secret s)
      | VBool b \<Rightarrow> if w then Inr (if b then ''1'' else ''0'') else Inl (unconvertible ''string'' d)
      | VInt i \<Rightarrow> if w then Inr (FormatInt i) else Inl (unconvertible ''string'' d)
      | VDuration i \<Rightarrow> if w then Inr (FormatInt i) else Inl (unconvertible ''string'' d)
      | _ \<Rightarrow> Inl (unconvertible ''string'' d))"

text \<open>A function on the value of a result; an error stays.\<close>

fun map_result :: "('a \<Rightarrow> 'b) \<Rightarrow> error + 'a \<Rightarrow> error + 'b" where
  "map_result f (Inl e) = Inl e"
| "map_result f (Inr x) = Inr (f x)"

text \<open>The first error of a list of results, or all the values.\<close>

fun sequence :: "(error + 'a) list \<Rightarrow> error + 'a list" where
  "sequence [] = Inr []"
| "sequence (Inl e # rs) = Inl e"
| "sequence (Inr x # rs) = (case sequence rs of Inl e \<Rightarrow> Inl e | Inr xs \<Rightarrow> Inr (x # xs))"

text \<open>\<^verbatim>\<open>m[k] = v\<close> on a map kept as a list of entries with distinct keys.\<close>

fun SetMapIndex :: "(string \<times> val) list \<Rightarrow> string \<Rightarrow> val \<Rightarrow> (string \<times> val) list" where
  "SetMapIndex [] k v = [(k, v)]"
| "SetMapIndex (p # ps) k v = (if fst p = k then (k, v) # ps else p # SetMapIndex ps k v)"

text \<open>
  The map entry a struct field is decoded from: the entry of the field's key, or else
  one whose key equals it up to letter case.
\<close>

definition field_source :: "(string \<times> val) list \<Rightarrow> string \<Rightarrow> val option" where
  "field_source m k =
     (case map_of m k of
        Some v \<Rightarrow> Some v
      | None \<Rightarrow> (case filter (\<lambda>e. EqualFold (fst e) k) m of [] \<Rightarrow> None | e # _ \<Rightarrow> Some (snd e)))"

text \<open>
  What a hook chain can return for given data: the data itself, the pieces of a string
  for a sequence target, a duration for the duration target, or a string for the
  secret target. The recursion of the decoder below terminates by this.
\<close>

definition hookrel :: "rtype \<Rightarrow> val \<Rightarrow> val \<Rightarrow> bool" where
  "hookrel t data d =
     (d = data
      \<or> (Kind_of_type t = KSlice \<and> (\<exists>s ss. data = VString s \<and> d = VSlice TString (map VString ss)))
      \<or> (t = TDuration \<and> (\<exists>s n. data = VString s \<and> d = VDuration n))
      \<or> (t = TSecretString \<and> (\<exists>s x. data = VSecret s \<and> d = VString x)))"

lemmas hook_simps =
  SecretStringMaskHookFunc.simps StringToTimeDurationHookFunc.simps StringToSliceHookFunc.simps

declare hook_simps [simp del]

lemma run_hook_rel: "run_hook pd h f t data = Inr d \<Longrightarrow> hookrel t data d"
  by (cases h) (auto simp: hookrel_def hook_simps split: if_splits val.splits sum.splits)

lemma hookrel_trans: "hookrel t a b \<Longrightarrow> hookrel t b c \<Longrightarrow> hookrel t a c"
  by (auto simp: hookrel_def)

lemma Compose_rel: "ComposeDecodeHookFunc pd hs f t data = Inr d \<Longrightarrow> hookrel t data d"
proof (induction hs arbitrary: f data)
  case Nil
  then show ?case by (simp add: hookrel_def)
next
  case (Cons h hs)
  then show ?case
    by (auto split: sum.splits dest!: run_hook_rel intro: hookrel_trans)
qed

text \<open>
  The element of the output slice that element \<open>i\<close> of the input is decoded into: the
  one already there, or a zero value appended for it.
\<close>

definition slot_at :: "rtype \<Rightarrow> val list \<Rightarrow> nat \<Rightarrow> val" where
  "slot_at t cs i = (if i < length cs \<and> type_of (cs ! i) = t then cs ! i else zero_of t)"

lemma size_list_mono: "(\<And>x. x \<in> set xs \<Longrightarrow> f x \<le> g x) \<Longrightarrow> size_list f xs \<le> size_list g xs"
  by (induction xs) (auto simp: add_mono)

lemma size_type_of_zero_of: "size (type_of (zero_of t)) \<le> size t"
proof (induction t)
  case (TStruct fs)
  have IH: "\<And>k d b. (k, d, b) \<in> set fs \<Longrightarrow> size (type_of (zero_of b)) \<le> size b"
    using TStruct by auto
  have "size_list (size_prod (\<lambda>x. 0) (size_prod (\<lambda>x. 0) size) \<circ>
                   (\<lambda>e. (fst e, fst (snd e), type_of (zero_of (snd (snd e)))))) fs
        \<le> size_list (size_prod (\<lambda>x. 0) (size_prod (\<lambda>x. 0) size)) fs"
  proof (rule size_list_mono)
    fix x assume x: "x \<in> set fs"
    obtain k d b where xe: "x = (k, d, b)" by (cases x) auto
    have "size (type_of (zero_of b)) \<le> size b" using IH [of k d b] x xe by simp
    then show "(size_prod (\<lambda>x. 0) (size_prod (\<lambda>x. 0) size) \<circ>
                   (\<lambda>e. (fst e, fst (snd e), type_of (zero_of (snd (snd e)))))) x
                \<le> size_prod (\<lambda>x. 0) (size_prod (\<lambda>x. 0) size) x"
      using xe by simp
  qed
  then show ?case by (simp add: comp_def)
qed simp_all

lemma elem_lt: "Indirect data = VSlice t es \<Longrightarrow> a \<in> set es \<Longrightarrow> size a < size data"
  by (cases data) (auto simp: less_Suc_eq_le size_list_estimation' elim: less_le_trans
       intro!: le_SucI size_list_estimation'[where y = "size a" and f = size])

lemma mapval_lt: "Indirect data = VMap m \<Longrightarrow> (k, v) \<in> set m \<Longrightarrow> size v < size data"
  by (cases data) (auto simp: less_Suc_eq_le intro!: le_SucI size_list_estimation'[where x = "(k, v)"])

lemma structfield_lt: "Indirect data = VStruct fs \<Longrightarrow> (k, d, v) \<in> set fs \<Longrightarrow> Suc (size v) < size data"
  by (cases data) (auto simp: less_Suc_eq_le intro!: le_SucI size_list_estimation'[where x = "(k, d, v)"])

lemma size_slot_type: "size (slot_type v) = size (type_of v)"
  by (cases v) auto

lemma size_slot_at: "size (slot_type (slot_at t cs i)) \<le> size t"
  using size_type_of_zero_of [of t] by (auto simp: slot_at_def size_slot_type)

lemma size_type_slot_at: "size (type_of (slot_at t cs i)) \<le> size t"
  using size_type_of_zero_of [of t] by (auto simp: slot_at_def)

lemma field_source_in: "field_source m k = Some v \<Longrightarrow> \<exists>k'. (k', v) \<in> set m"
  apply (auto simp: field_source_def split: option.splits list.splits dest: map_of_SomeD)
  by (metis filter_eq_ConsD in_set_conv_decomp)

text \<open>
  Modelled from the spec: the decoder of the \<^verbatim>\<open>mapstructure\<close> library. \<open>decode L hs w data cur\<close>
  decodes \<open>data\<close> into the location that holds \<open>cur\<close> and returns its new content: \<open>hs\<close>
  is the hook chain, run first on the type of the data and the type of the location,
  \<open>w\<close> is \<^verbatim>\<open>WeaklyTypedInput\<close>. Nil data leaves the location as it is. A struct is decoded
  into a map field by field, a nested struct as a nested map and every other field as
  its value; a map is decoded into a struct field by field, through the decoder, and a
  field with no entry keeps its value; a struct of the same type is copied. The first
  error is returned.
\<close>

function decode :: "lib \<Rightarrow> hook list \<Rightarrow> bool \<Rightarrow> val \<Rightarrow> val \<Rightarrow> error + val" where
  "decode L hs w data cur =
     (if is_nil data then Inr cur
      else case ComposeDecodeHookFunc (ParseDuration L) hs (type_of data) (slot_type cur) data of
        Inl e \<Rightarrow> Inl e
      | Inr d \<Rightarrow>
         (case cur of
            VNil \<Rightarrow> Inr d
          | VBool b \<Rightarrow> map_result VBool (decodeBool w d)
          | VInt i \<Rightarrow> map_result VInt (decodeInt L w d)
          | VDuration i \<Rightarrow> map_result VDuration (decodeInt L w d)
          | VString s \<Rightarrow> map_result VString (decodeString w d)
          | VSecret s \<Rightarrow> map_result (\<lambda>x. VSecret (SecretString x)) (decodeString w d)
          | VPtr c \<Rightarrow> map_result VPtr (decode L hs w d c)
          | VNilPtr t \<Rightarrow> map_result VPtr (decode L hs w d (zero_of t))
          | VSlice t cs \<Rightarrow>
              (case Indirect d of
                 VSlice t' es \<Rightarrow>
                   map_result (\<lambda>rs. VSlice t (rs @ drop (length es) cs))
                     (sequence (map (\<lambda>p. decode L hs w (fst p) (slot_at t cs (snd p)))
                                  (zip es [0 ..< length es])))
               | VMap m \<Rightarrow>
                   if \<not> w then Inl (DecodeError ''source data must be an array or slice, got map'')
                   else if m = [] then Inr (VSlice t [])
                   else map_result (\<lambda>r. VSlice t (r # drop 1 cs)) (decode L hs w d (slot_at t cs 0))
               | _ \<Rightarrow>
                   if \<not> w then Inl (DecodeError (''source data must be an array or slice, got ''
                                       @ Kind_String (Kind_of (Indirect d))))
                   else map_result (\<lambda>r. VSlice t (r # drop 1 cs)) (decode L hs w d (slot_at t cs 0)))
          | VStruct cf \<Rightarrow>
              (if type_of (Indirect d) = type_of cur then Inr (Indirect d)
               else case Indirect d of
                 VMap m \<Rightarrow>
                   map_result VStruct
                     (sequence (map (\<lambda>f. case field_source m (fst f) of
                                            None \<Rightarrow> Inr f
                                          | Some v \<Rightarrow> map_result (\<lambda>r. (fst f, fst (snd f), r))
                                                       (decode L hs w v (snd (snd f)))) cf))
               | VStruct fs \<Rightarrow> DecodeOther L d cur
               | _ \<Rightarrow> Inl (DecodeError (''expected a map, got '' @ Kind_String (Kind_of (Indirect d)))))
          | VMap cm \<Rightarrow>
              (case Indirect d of
                 VStruct fs \<Rightarrow>
                   map_result (\<lambda>kvs. VMap (fold (\<lambda>kv m. SetMapIndex m (fst kv) (snd kv)) kvs cm))
                     (sequence (map (\<lambda>f. case snd (snd f) of
                                            VStruct g \<Rightarrow> map_result (Pair (fst f))
                                                          (decode L hs w (VPtr (snd (snd f))) (VMap []))
                                          | v \<Rightarrow> Inr (fst f, v)) fs))
               | VMap m \<Rightarrow>
                   map_result (\<lambda>kvs. VMap (fold (\<lambda>kv m. SetMapIndex m (fst kv) (snd kv)) kvs cm))
                     (sequence (map (\<lambda>e. map_result (Pair (fst e)) (decode L hs w (snd e) VNil)) m))
               | VSlice t' es \<Rightarrow>
                   if w then DecodeOther L d cur
                   else Inl (DecodeError ''expected a map, got slice'')
               | _ \<Rightarrow> Inl (DecodeError (''expected a map, got '' @ Kind_String (Kind_of (Indirect d)))))))"
  by pat_completeness auto
termination
  apply (relation "measures [\<lambda>(L, hs, w, data, cur). size data, \<lambda>(L, hs, w, data, cur). size (slot_type cur)]")
  apply simp
  apply (auto dest!: Compose_rel field_source_in set_zip_leftD dest: structfield_lt
        simp: hookrel_def less_Suc_eq_le size_slot_at elem_lt mapval_lt
              size_slot_type size_type_of_zero_of size_type_slot_at)
  done

declare decode.simps [simp del]

text \<open>
  \<^verbatim>\<open>Decode(input, output)\<close>. The output is a pointer: to a variable of a concrete type, or
  to an \<^verbatim>\<open>interface{}\<close> variable, whose content the decoder decodes into when it has one.
  The result is the new content of the variable.
\<close>

datatype result_ptr = PtrTo val | PtrToInterface val | NotPtr val

definition Decode :: "lib \<Rightarrow> val \<Rightarrow> result_ptr \<Rightarrow> error + val" where
  "Decode L input out =
     (case out of
        NotPtr x \<Rightarrow> Inl (DecodeError ''result must be a pointer'')
      | PtrTo cur \<Rightarrow> decode L Decode_hooks True input cur
      | PtrToInterface cur \<Rightarrow>
          (if cur = VNil then decode L Decode_hooks True input VNil
           else if is_nil input then Inr cur
           else case DecodeHook (ParseDuration L) (type_of input) TInterface input of
                  Inl e \<Rightarrow> Inl e
                | Inr d \<Rightarrow> decode L Decode_hooks True d cur))"

section \<open>JSON text\<close>

text \<open>
  Modelled from the spec: \<^verbatim>\<open>json.MarshalIndent(v, "", "  ")\<close> of the standard library, for
  the values a printable map holds. A string is quoted, with the quote, the backslash,
  the control bytes and the bytes \<^verbatim>\<open><\<close>, \<^verbatim>\<open>>\<close>, \<^verbatim>\<open>&\<close> escaped; the bytes of valid UTF-8 text
  are copied. A value of a string kind is written as a string and one of an integer
  kind as a number, whatever its type; the keys of a map are sorted.
\<close>

definition hexdigit :: "nat \<Rightarrow> char" where
  "hexdigit n = ''0123456789abcdef'' ! (n mod 16)"

definition escape_byte :: "char \<Rightarrow> string" where
  "escape_byte c =
     (if c = CHR 0x22 \<or> c = CHR 0x5C then [CHR 0x5C, c]
      else if c = CHR 0x0A then [CHR 0x5C, CHR ''n'']
      else if c = CHR 0x0D then [CHR 0x5C, CHR ''r'']
      else if c = CHR 0x09 then [CHR 0x5C, CHR ''t'']
      else if (of_char c :: nat) < 32 \<or> c = CHR ''<'' \<or> c = CHR ''>'' \<or> c = CHR ''&''
        then [CHR 0x5C, CHR ''u'', CHR ''0'', CHR ''0'',
              hexdigit (of_char c div 16), hexdigit (of_char c mod 16)]
      else [c])"

definition json_string :: "string \<Rightarrow> string" where
  "json_string s = CHR 0x22 # concat (map escape_byte s) @ [CHR 0x22]"

definition indent :: "nat \<Rightarrow> string" where
  "indent n = concat (replicate n ''  '')"

fun join :: "string \<Rightarrow> string list \<Rightarrow> string" where
  "join sep [] = []"
| "join sep [x] = x"
| "join sep (x # y # ys) = x @ sep @ join sep (y # ys)"

fun marshal :: "lib \<Rightarrow> nat \<Rightarrow> val \<Rightarrow> string" where
  "marshal L n VNil = ''null''"
| "marshal L n (VBool b) = (if b then ''true'' else ''false'')"
| "marshal L n (VInt i) = FormatInt i"
| "marshal L n (VDuration i) = FormatInt i"
| "marshal L n (VString s) = json_string s"
| "marshal L n (VSecret s) = json_string (SecretString_Secret s)"
| "marshal L n (VMap m) =
     (if m = [] then ''{}''
      else CHR ''{'' # CHR 0x0A #
           join [CHR '','', CHR 0x0A]
             (map (\<lambda>e. indent (Suc n) @ json_string (fst e) @ '': '' @ marshal L (Suc n) (snd e))
                (sort_key fst m))
           @ CHR 0x0A # indent n @ ''}'')"
| "marshal L n v = MarshalOther L v"

definition MarshalIndent :: "lib \<Rightarrow> val \<Rightarrow> string" where
  "MarshalIndent L v = marshal L 0 v"

section \<open>Printable redaction\<close>

text \<open>
  \<^verbatim>\<open>GetPrintable\<close>, line by line. \<^verbatim>\<open>reflect.ValueOf(config).Elem()\<close> panics unless the argument
  is a pointer (or an interface, which \<^verbatim>\<open>reflect.ValueOf\<close> never returns), and \<^verbatim>\<open>Type()\<close>
  panics on the invalid value that \<^verbatim>\<open>Elem()\<close> returns for a nil pointer.
  \<open>GetPrintable_map\<close> is the map handed to \<^verbatim>\<open>json.MarshalIndent\<close>.
\<close>

definition GetPrintable_map :: "lib \<Rightarrow> val \<Rightarrow> error + val" where
  "GetPrintable_map L config =
     (case config of
        VPtr x \<Rightarrow>
          (let newConfig = VPtr (zero_of (type_of x)) in
           case Decode L config (PtrTo (VMap [])) of
             Inl e \<Rightarrow> Inl e
           | Inr structMap \<Rightarrow>
               (case Decode L structMap (PtrToInterface newConfig) of
                  Inl e \<Rightarrow> Inl e
                | Inr newConfig' \<Rightarrow> Decode L newConfig' (PtrTo structMap)))
      | VNilPtr t \<Rightarrow> Inl (Panic ''reflect: call of reflect.Value.Type on zero Value'')
      | _ \<Rightarrow> Inl (Panic (''reflect: call of reflect.Value.Elem on '' @
                          (if config = VNil then ''zero'' else Kind_String (Kind_of config)) @ '' Value'')))"

definition GetPrintable :: "lib \<Rightarrow> val \<Rightarrow> error + string" where
  "GetPrintable L config =
     (case GetPrintable_map L config of
        Inl e \<Rightarrow> Inl e
      | Inr structMap \<Rightarrow> Inr (MarshalIndent L structMap))"

section \<open>The loader\<close>

text \<open>\<^verbatim>\<open>verifyParamIsPtrToStructElsePanic\<close>; \<open>None\<close> is the nil error.\<close>

definition verifyParamIsPtrToStructElsePanic :: "val \<Rightarrow> error option" where
  "verifyParamIsPtrToStructElsePanic param =
     (if Kind_of param \<noteq> KPtr
        then Some (InvalidArgument (''require ptr to a struct for Load. Got '' @ Kind_String (Kind_of param)))
      else if Kind_of (Indirect param) \<noteq> KStruct
        then Some (InvalidArgument (''require ptr to a struct for Load. got ptr to ''
                                    @ Kind_String (Kind_of (Indirect param))))
      else None)"

text \<open>
  Modelled from the spec: \<^verbatim>\<open>flatten.Flatten(m, "", flatten.DotStyle)\<close> of the
  \<^verbatim>\<open>jeremywohl/flatten\<close> library. It descends into the values that are a
  \<^verbatim>\<open>map[string]interface{}\<close> or a \<^verbatim>\<open>[]interface{}\<close> (by index) and takes every other value
  as a leaf; the keys of a path are joined with a dot.
\<close>

definition enkey :: "bool \<Rightarrow> string \<Rightarrow> string \<Rightarrow> string" where
  "enkey tp pfx subkey = (if tp then pfx @ subkey else pfx @ ''.'' @ subkey)"

function (sequential) flatten :: "bool \<Rightarrow> string \<Rightarrow> val \<Rightarrow> (string \<times> val) list" where
  "flatten tp pfx (VMap m) =
     concat (map (\<lambda>e. flatten False (enkey tp pfx (fst e)) (snd e)) m)"
| "flatten tp pfx (VSlice TInterface vs) =
     concat (map (\<lambda>e. flatten False (enkey tp pfx (digits (snd e))) (fst e))
               (zip vs [0 ..< length vs]))"
| "flatten tp pfx v = [(pfx, v)]"
  by pat_completeness auto
termination
proof (relation "measure (\<lambda>(tp, pfx, v). size v)")
  show "wf (measure (\<lambda>(tp, pfx, v). size v))" by simp
next
  fix tp :: bool and pfx :: string and m :: "(string \<times> val) list" and x
  assume "x \<in> set m"
  then have "size (snd x) < size (VMap m)"
    using mapval_lt [of "VMap m" m "fst x" "snd x"] by simp
  then show "((False, enkey tp pfx (fst x), snd x), tp, pfx, VMap m) \<in> measure (\<lambda>(tp, pfx, v). size v)"
    by simp
next
  fix tp :: bool and pfx :: string and vs :: "val list" and x
  assume "x \<in> set (zip vs [0..<length vs])"
  then have "fst x \<in> set vs" by (metis prod.collapse set_zip_leftD)
  then have "size (fst x) < size (VSlice TInterface vs)"
    using elem_lt [of "VSlice TInterface vs" TInterface vs "fst x"] by simp
  then show "((False, enkey tp pfx (digits (snd x)), fst x), tp, pfx, VSlice TInterface vs)
             \<in> measure (\<lambda>(tp, pfx, v). size v)"
    by simp
qed

text \<open>
  The top call of \<^verbatim>\<open>Flatten\<close>: the entries of the nested map, each assigned as a leaf or
  descended into; a later entry of the same flat key replaces an earlier one.
\<close>

definition Flatten :: "(string \<times> val) list \<Rightarrow> (string \<times> val) list" where
  "Flatten m =
     fold (\<lambda>kv acc. SetMapIndex acc (fst kv) (snd kv))
       (concat (map (\<lambda>e. case snd e of
                            VMap m' \<Rightarrow> flatten False (enkey True [] (fst e)) (snd e)
                          | VSlice TInterface vs \<Rightarrow> flatten False (enkey True [] (fst e)) (snd e)
                          | v \<Rightarrow> [(enkey True [] (fst e), v)]) m)) []"

text \<open>
  \<^verbatim>\<open>getFlattenedStructKeys\<close>: \<^verbatim>\<open>mapstructure.Decode\<close> has no hooks and no weak typing. The
  keys come in the order of the map.
\<close>

definition getFlattenedStructKeys :: "lib \<Rightarrow> val \<Rightarrow> error + string list" where
  "getFlattenedStructKeys L config =
     (case decode L [] False config (VMap []) of
        Inl e \<Rightarrow> Inl e
      | Inr structMap \<Rightarrow>
          (case structMap of
             VMap m \<Rightarrow> Inr (map fst (Flatten m))
           | _ \<Rightarrow> Inl (KeyDiscoveryError ''Not a valid input: map or slice'')))"

text \<open>
  Modelled from the spec: the defaults applier (\<^verbatim>\<open>defaults.SetDefaults\<close> of the
  \<^verbatim>\<open>mcuadros/go-defaults\<close> library). It visits every field, descending into nested structs,
  and writes the declared default into a field that holds the zero value of its type.
\<close>

fun isEmpty :: "val \<Rightarrow> bool" where
  "isEmpty (VBool b) = (\<not> b)"
| "isEmpty (VInt i) = (i = 0)"
| "isEmpty (VDuration i) = (i = 0)"
| "isEmpty (VString s) = (s = [])"
| "isEmpty (VSecret s) = (SecretString_Secret s = [])"
| "isEmpty (VSlice t vs) = (case t of TStruct fs \<Rightarrow> False | _ \<Rightarrow> vs = [])"
| "isEmpty v = True"

fun default_val :: "val \<Rightarrow> scalar \<Rightarrow> val" where
  "default_val (VBool b) (SBool x) = VBool x"
| "default_val (VInt i) (SInt x) = VInt x"
| "default_val (VDuration i) (SInt x) = VDuration x"
| "default_val (VString s) (SString x) = VString x"
| "default_val (VSecret s) (SString x) = VSecret (SecretString x)"
| "default_val cur x = cur"

fun SetDefaultValues :: "scalar option \<Rightarrow> val \<Rightarrow> val" where
  "SetDefaultValues d (VStruct fs) =
     VStruct (map (\<lambda>f. (fst f, fst (snd f), SetDefaultValues (fst (snd f)) (snd (snd f)))) fs)"
| "SetDefaultValues d cur =
     (if isEmpty cur then (case d of None \<Rightarrow> cur | Some x \<Rightarrow> default_val cur x) else cur)"

definition SetDefaults :: "val \<Rightarrow> val" where
  "SetDefaults config = (case config of VPtr s \<Rightarrow> VPtr (SetDefaultValues None s) | _ \<Rightarrow> config)"

text \<open>
  Modelled from the spec: the configuration provider (the \<^verbatim>\<open>viper\<close> library). Its state:
  the file to look for, the prefix and the replacement rule of environment names,
  whether the environment is consulted for every key, whether an empty variable counts
  as set, the environment names bound to keys, and the settings read from the file, by
  dotted lower-case key.
\<close>

record viper =
  v_configName :: string
  v_configType :: string
  v_configPaths :: "string list"
  v_envPrefix :: string
  v_envKeyReplacer :: "(string \<times> string) option"
  v_automaticEnvApplied :: bool
  v_allowEmptyEnv :: bool
  v_env :: "(string \<times> string list) list"
  v_config :: "(string \<times> val) list"

text \<open>
  What \<^verbatim>\<open>Load\<close> reads from outside: the environment variables, and the outcome of looking
  for and parsing the file of the configured search paths, name and type.
\<close>

datatype read_result = ConfigFileNotFoundError | ReadFailed string | ReadOk "(string \<times> val) list"

record world =
  environ :: "string \<Rightarrow> string option"
  readConfigFile :: "string list \<Rightarrow> string \<Rightarrow> string \<Rightarrow> read_result"

datatype Loader = Loader viper

fun Loader_v :: "Loader \<Rightarrow> viper" where
  "Loader_v (Loader x) = x"







definition AutomaticEnv :: "viper \<Rightarrow> viper" where
  "AutomaticEnv x = x\<lparr>v_automaticEnvApplied := True\<rparr>"





text \<open>\<^verbatim>\<open>ReadInConfig\<close>: the error it returns, if any, and the provider with the settings read.\<close>

definition ReadInConfig :: "world \<Rightarrow> viper \<Rightarrow> read_result \<times> viper" where
  "ReadInConfig W x =
     (case readConfigFile W (v_configPaths x) (v_configName x) (v_configType x) of
        ReadOk settings \<Rightarrow> (ReadOk settings, x\<lparr>v_config := settings\<rparr>)
      | r \<Rightarrow> (r, x))"

text \<open>The name of the environment variable of a key, and the replacement rule.\<close>

function replace_all :: "string \<Rightarrow> string \<Rightarrow> string \<Rightarrow> string" where
  "replace_all old new [] = []"
| "replace_all old new (c # cs) =
     (if old \<noteq> [] \<and> prefix old (c # cs) then new @ replace_all old new (drop (length old) (c # cs))
      else c # replace_all old new cs)"
  by pat_completeness auto
termination
  by (relation "measure (\<lambda>(old, new, s). length s)") auto

definition Replace :: "(string \<times> string) option \<Rightarrow> string \<Rightarrow> string" where
  "Replace r s =
     (case r of
        None \<Rightarrow> s
      | Some (old, new) \<Rightarrow> if old = [] then new @ concat (map (\<lambda>c. c # new) s) else replace_all old new s)"

definition mergeWithEnvPrefix :: "viper \<Rightarrow> string \<Rightarrow> string" where
  "mergeWithEnvPrefix x k = (if v_envPrefix x \<noteq> [] then ToUpper (v_envPrefix x @ ''_'' @ k) else ToUpper k)"

definition getEnv :: "world \<Rightarrow> viper \<Rightarrow> string \<Rightarrow> string option" where
  "getEnv W x name =
     (case environ W (Replace (v_envKeyReplacer x) name) of
        None \<Rightarrow> None
      | Some val \<Rightarrow> if v_allowEmptyEnv x \<or> val \<noteq> [] then Some val else None)"

fun set_names :: "(string \<times> string list) list \<Rightarrow> string \<Rightarrow> string list \<Rightarrow> (string \<times> string list) list" where
  "set_names [] k ns = [(k, ns)]"
| "set_names (p # ps) k ns = (if fst p = k then (k, ns) # ps else p # set_names ps k ns)"

definition BindEnv :: "viper \<Rightarrow> string list \<Rightarrow> error + viper" where
  "BindEnv x input =
     (case input of
        [] \<Rightarrow> Inl (BindingError ''missing key to bind to'')
      | k # rest \<Rightarrow>
          (let key = ToLower k;
               names = (if rest = [] then [mergeWithEnvPrefix x key] else rest);
               old = (case map_of (v_env x) key of None \<Rightarrow> [] | Some ns \<Rightarrow> ns)
           in Inr (x\<lparr>v_env := set_names (v_env x) key (old @ names)\<rparr>)))"

text \<open>
  The value of a key: the environment first (the variable of the key's own name when
  the environment is consulted for every key, then the bound names), then the file.
\<close>


definition viper_env :: "world \<Rightarrow> viper \<Rightarrow> string \<Rightarrow> string option" where
  "viper_env W x lcaseKey =
     (case (if v_automaticEnvApplied x then getEnv W x (mergeWithEnvPrefix x lcaseKey) else None) of
        Some val \<Rightarrow> Some val
      | None \<Rightarrow>
          (case List.map_filter (getEnv W x)
                  (case map_of (v_env x) lcaseKey of None \<Rightarrow> [] | Some ns \<Rightarrow> ns) of
             val # rest \<Rightarrow> Some val
           | [] \<Rightarrow> None))"

definition viper_find :: "world \<Rightarrow> viper \<Rightarrow> string \<Rightarrow> val option" where
  "viper_find W x lcaseKey =
     (case viper_env W x lcaseKey of
        Some val \<Rightarrow> Some (VString val)
      | None \<Rightarrow> map_of (v_config x) lcaseKey)"

text \<open>
  The hooks of the provider's own decoder, and \<^verbatim>\<open>Unmarshal\<close>: every field of the
  destination that has a value under its dotted path is decoded from it, with weak
  typing; a field with no value keeps its content.
\<close>

definition viper_hooks :: "hook list" where
  "viper_hooks = [StringToTimeDurationHook, StringToSliceHook CHR '','']"

definition subpath :: "string \<Rightarrow> string \<Rightarrow> string" where
  "subpath pfx k = (if pfx = [] then k else pfx @ ''.'' @ k)"

fun unmarshal :: "lib \<Rightarrow> world \<Rightarrow> viper \<Rightarrow> string \<Rightarrow> val \<Rightarrow> error + val" where
  "unmarshal L W x pfx (VStruct fs) =
     map_result VStruct
       (sequence (map (\<lambda>f. map_result (\<lambda>r. (fst f, fst (snd f), r))
                              (unmarshal L W x (subpath pfx (fst f)) (snd (snd f)))) fs))"
| "unmarshal L W x pfx cur =
     (case viper_find W x (ToLower pfx) of
        None \<Rightarrow> Inr cur
      | Some raw \<Rightarrow> decode L viper_hooks True raw cur)"

definition Unmarshal :: "lib \<Rightarrow> world \<Rightarrow> viper \<Rightarrow> val \<Rightarrow> error + val" where
  "Unmarshal L W x rawVal =
     (case rawVal of
        VPtr s \<Rightarrow> map_result VPtr (unmarshal L W x [] s)
      | _ \<Rightarrow> Inl (DecodeError ''result must be a pointer''))"

text \<open>The text of an error, which \<^verbatim>\<open>%v\<close> prints.\<close>

fun Error :: "error \<Rightarrow> string" where
  "Error (InvalidArgument m) = m"
| "Error (SourceReadError m) = m"
| "Error (KeyDiscoveryError m) = m"
| "Error (BindingError m) = m"
| "Error (DecodeError m) = m"
| "Error (Panic m) = m"

fun bind_keys :: "viper \<Rightarrow> string list \<Rightarrow> error + viper" where
  "bind_keys x [] = Inr x"
| "bind_keys x (k # ks) = (case BindEnv x [k] of Inl e \<Rightarrow> Inl e | Inr x' \<Rightarrow> bind_keys x' ks)"

text \<open>\<^verbatim>\<open>fmt.Errorf\<close> around the error of a step; a panic is not an error value and passes through.\<close>

fun wrap_error :: "(string \<Rightarrow> error) \<Rightarrow> string \<Rightarrow> error \<Rightarrow> error" where
  "wrap_error mk pre (Panic m) = Panic m"
| "wrap_error mk pre e = mk (pre @ Error e)"

text \<open>
  \<^verbatim>\<open>Load\<close>: the error it returns (\<open>None\<close> is nil), the loader and the destination after the
  call. When the final decoding fails, the destination is given as the defaults applier
  left it; what the decoder wrote before it failed is not modelled.
\<close>

definition Load :: "lib \<Rightarrow> world \<Rightarrow> Loader \<Rightarrow> val \<Rightarrow> error option \<times> Loader \<times> val" where
  "Load L W l config =
     (case verifyParamIsPtrToStructElsePanic config of
        Some err \<Rightarrow> (Some err, l, config)
      | None \<Rightarrow>
          (case ReadInConfig W (AutomaticEnv (Loader_v l)) of
             (ReadFailed e, x) \<Rightarrow>
               (Some (SourceReadError (''unable to read configs using viper: '' @ e)), Loader x, config)
           | (r, x) \<Rightarrow>
               (case getFlattenedStructKeys L config of
                  Inl e \<Rightarrow>
                    (Some (wrap_error KeyDiscoveryError ''unable to get all config keys from struct: '' e),
                     Loader x, config)
                | Inr configKeys \<Rightarrow>
                    (case bind_keys x configKeys of
                       Inl e \<Rightarrow> (Some (wrap_error BindingError ''unable to bind env keys: '' e), Loader x, config)
                     | Inr x' \<Rightarrow>
                         (case Unmarshal L W x' (SetDefaults config) of
                            Inl e \<Rightarrow>
                              (Some (wrap_error DecodeError ''unable to load config to struct: '' e),
                               Loader x', SetDefaults config)
                          | Inr config' \<Rightarrow> (None, Loader x', config'))))))"

section \<open>Paths, shapes and expected results\<close>



definition is_struct :: "val \<Rightarrow> bool" where
  "is_struct v = (case v of VStruct g \<Rightarrow> True | _ \<Rightarrow> False)"

text \<open>
  The map a struct is decoded into when no two fields of a struct share a key: a nested
  struct as a nested map, every other field as its value.
\<close>

fun struct_map :: "val \<Rightarrow> val" where
  "struct_map (VStruct fs) = VMap (map (\<lambda>f. (fst f, struct_map (snd (snd f)))) fs)"
| "struct_map v = v"













section \<open>Properties of the secret string type\<close>

text \<open>
  C3. For every underlying string \<open>s\<close>, the display conversion of \<open>SecretString s\<close> is
  the fixed masking token of sixteen asterisks; it is the same for every other
  underlying string \<open>s'\<close>, so it never carries the underlying value, and it coincides
  with \<open>s\<close> only when \<open>s\<close> is itself the token. The unmask operation returns exactly \<open>s\<close>.
\<close>

theorem SecretString_masks:
  "SecretString_String (SecretString s) = replicate 16 CHR ''*''
   \<and> SecretString_String (SecretString s) = SecretString_String (SecretString s')
   \<and> (SecretString_String (SecretString s) = s) = (s = ''****************'')
   \<and> SecretString_Secret (SecretString s) = s"
  by (auto simp add: SecretString_String_def numeral_eq_Suc)

section \<open>Properties of the decode hooks\<close>



section \<open>Properties of the loader's argument check\<close>

lemma Load_verify_fails:
  "verifyParamIsPtrToStructElsePanic config = Some e \<Longrightarrow> Load L W l config = (Some e, l, config)"
  by (simp add: Load_def)

lemma GetPrintable_map_not_ptr:
  "Kind_of config \<noteq> KPtr \<Longrightarrow>
   GetPrintable_map L config =
     Inl (Panic (''reflect: call of reflect.Value.Elem on '' @
                 (if config = VNil then ''zero'' else Kind_String (Kind_of config)) @ '' Value''))"
  by (cases config) (simp_all add: GetPrintable_map_def Kind_of_def)

text \<open>
  C8. When the argument of \<^verbatim>\<open>Load\<close> is not a pointer, or is a pointer to something that is
  not a struct, \<^verbatim>\<open>Load\<close> returns the invalid-argument error whose message names the kind
  received (the kind of the argument, or the kind pointed to), and the loader and the
  destination are what they were.
\<close>

theorem Load_invalid_argument:
  assumes "Kind_of config \<noteq> KPtr \<or> Kind_of (Indirect config) \<noteq> KStruct"
  shows "Load L W l config =
           (Some (InvalidArgument
              (if Kind_of config \<noteq> KPtr
               then ''require ptr to a struct for Load. Got '' @ Kind_String (Kind_of config)
               else ''require ptr to a struct for Load. got ptr to '' @ Kind_String (Kind_of (Indirect config)))),
            l, config)"
proof (rule Load_verify_fails)
  show "verifyParamIsPtrToStructElsePanic config =
          Some (InvalidArgument
              (if Kind_of config \<noteq> KPtr
               then ''require ptr to a struct for Load. Got '' @ Kind_String (Kind_of config)
               else ''require ptr to a struct for Load. got ptr to '' @ Kind_String (Kind_of (Indirect config))))"
    using assms by (simp add: verifyParamIsPtrToStructElsePanic_def)
qed

theorem Load_invalid_argument_witness:
  "\<forall>L W l.
     Load L W l (VInt 2) = (Some (InvalidArgument ''require ptr to a struct for Load. Got int''), l, VInt 2)
     \<and> Load L W l (VPtr (VString ''x'')) =
         (Some (InvalidArgument ''require ptr to a struct for Load. got ptr to string''), l, VPtr (VString ''x''))"
proof (intro allI)
  fix L W l
  show "Load L W l (VInt 2) = (Some (InvalidArgument ''require ptr to a struct for Load. Got int''), l, VInt 2)
     \<and> Load L W l (VPtr (VString ''x'')) =
         (Some (InvalidArgument ''require ptr to a struct for Load. got ptr to string''), l, VPtr (VString ''x''))"
    using Load_invalid_argument [of "VInt 2" L W l] Load_invalid_argument [of "VPtr (VString ''x'')" L W l]
    by (simp add: Kind_of_def)
qed

text \<open>
  C10. \<^verbatim>\<open>GetPrintable\<close> panics on every argument that is not a pointer, and on a nil
  pointer, where \<^verbatim>\<open>Load\<close> on the same non-pointer argument returns the invalid-argument
  error and changes nothing.
\<close>

theorem GetPrintable_non_pointer_panics:
  assumes "Kind_of config \<noteq> KPtr"
  shows "(\<exists>m. GetPrintable L config = Inl (Panic m))
         \<and> (\<exists>m. Load L W l config = (Some (InvalidArgument m), l, config))
         \<and> (\<exists>m. GetPrintable L (VNilPtr t) = Inl (Panic m))"
proof -
  have "\<exists>m. GetPrintable L config = Inl (Panic m)"
    using GetPrintable_map_not_ptr [OF assms, of L] by (simp add: GetPrintable_def)
  moreover have "\<exists>m. Load L W l config = (Some (InvalidArgument m), l, config)"
    using assms by (intro exI Load_verify_fails) (simp add: verifyParamIsPtrToStructElsePanic_def)
  moreover have "\<exists>m. GetPrintable L (VNilPtr t) = Inl (Panic m)"
    by (simp add: GetPrintable_def GetPrintable_map_def)
  ultimately show ?thesis by blast
qed

theorem GetPrintable_non_pointer_panics_witness:
  "\<forall>L W l.
     GetPrintable L (VStruct [(''Port'', None, VInt 1)])
       = Inl (Panic ''reflect: call of reflect.Value.Elem on struct Value'')
     \<and> (\<exists>m. Load L W l (VStruct [(''Port'', None, VInt 1)])
               = (Some (InvalidArgument m), l, VStruct [(''Port'', None, VInt 1)]))"
proof (intro allI)
  fix L W l
  show "GetPrintable L (VStruct [(''Port'', None, VInt 1)])
       = Inl (Panic ''reflect: call of reflect.Value.Elem on struct Value'')
     \<and> (\<exists>m. Load L W l (VStruct [(''Port'', None, VInt 1)])
               = (Some (InvalidArgument m), l, VStruct [(''Port'', None, VInt 1)]))"
    using GetPrintable_non_pointer_panics [of "VStruct [(''Port'', None, VInt 1)]" L W l TInt]
    by (simp add: Kind_of_def GetPrintable_def GetPrintable_map_def)
qed

section \<open>Properties of the file-reading step\<close>

lemma getEnv_readConfigFile [simp]: "getEnv (W\<lparr>readConfigFile := r\<rparr>) = getEnv W"
  by (intro ext) (simp add: getEnv_def)

lemma viper_find_readConfigFile [simp]: "viper_find (W\<lparr>readConfigFile := r\<rparr>) = viper_find W"
  by (intro ext) (simp add: viper_find_def viper_env_def cong: option.case_cong)

lemma unmarshal_readConfigFile [simp]:
  "unmarshal L (W\<lparr>readConfigFile := r\<rparr>) x pfx cur = unmarshal L W x pfx cur"
  by (induction L W x pfx cur rule: unmarshal.induct) (simp_all cong: map_cong)

lemma Unmarshal_readConfigFile [simp]:
  "Unmarshal L (W\<lparr>readConfigFile := r\<rparr>) x c = Unmarshal L W x c"
  by (simp add: Unmarshal_def cong: val.case_cong)

lemma wrap_error_not_read [simp]:
  "wrap_error KeyDiscoveryError pre e \<noteq> SourceReadError m"
  "wrap_error BindingError pre e \<noteq> SourceReadError m"
  "wrap_error DecodeError pre e \<noteq> SourceReadError m"
  by (cases e; simp)+



section \<open>Properties of the defaults and of the resolved values\<close>




lemma Secret_empty [simp]: "(SecretString_Secret s = []) = (s = SecretString [])"
  by (cases s) simp


lemma sequence_Inr:
  "sequence (map h fs) = Inr rs \<Longrightarrow> rs = map (\<lambda>f. projr (h f)) fs \<and> (\<forall>f \<in> set fs. \<exists>r. h f = Inr r)"
proof (induction fs arbitrary: rs)
  case Nil
  then show ?case by simp
next
  case (Cons f fs)
  then show ?case
    by (cases "h f") (auto split: sum.splits)
qed
















section \<open>Properties of the key flattener\<close>







lemma struct_map_leaf: "\<not> is_struct v \<Longrightarrow> struct_map v = v"
  by (cases v) (auto simp: is_struct_def)















section \<open>Properties of printable redaction\<close>




































end
